theory Spec2Isabelle
  imports Complex_Main
begin

section \<open>Crossword solve-time plot: plot/plot.py\<close>

text \<open>
  The script has three functions: \<^verbatim>\<open>parse_data\<close> (load, re-index, sort, filter),
  \<^verbatim>\<open>save_plot\<close> (per-weekday rolling mean, axis bound, write) and \<^verbatim>\<open>main\<close>
  (argument handling). The data frame is modelled as the list of its rows in index order.
  A cell that pandas reads as NaN / NaT is \<open>None\<close>. Epoch seconds and durations are
  integers, as the crossword crate writes them; a datetime is represented by its epoch
  second (\<^verbatim>\<open>pd.to_datetime(_, unit="s")\<close> is strictly monotone on them). Means and
  quantiles are computed in exact rational arithmetic: the rounding of float64 is not
  part of the model. Every row carries a weekday label.
\<close>

subsection \<open>Rows, errors and the environment\<close>

record row =
  date :: string
  solved_unix :: "int option"
  opened_unix :: "int option"
  solve_time_secs :: "int option"
  weekday :: string
  cheated :: "bool option"

datatype error =
  IndexError
  | ValueError
  | FileNotFoundError
  | ParserError
  | KeyError
  | OSError

record line =
  label :: string
  points :: "(int \<times> rat option) list"

text \<open>
  A figure holds what the script puts on it: the title, one line per \<^verbatim>\<open>plot\<close>
  call, the axis labels, and the arguments of \<^verbatim>\<open>ax.set_ylim\<close> and
  \<^verbatim>\<open>ax.set_yticks\<close>. A NaN y-value of a point is \<open>None\<close>.
\<close>

record figure =
  title :: string
  lines :: "line list"
  xlabel :: string
  ylabel :: string
  ylim :: "rat \<times> rat"
  minor_yticks :: "rat list"

text \<open>
  What the script does not decide itself is a parameter: \<open>read_csv\<close> is what
  \<^verbatim>\<open>pd.read_csv\<close> and the column lookups make of a path (the typed rows, or the
  error they raise on a missing file, a missing column or an ill-typed cell), and
  \<open>savefig_error\<close> is the error, if any, with which \<^verbatim>\<open>plt.savefig\<close> refuses a
  path (unsupported extension, unwritable location).
\<close>

record env =
  read_csv :: "string \<Rightarrow> error + row list"
  savefig_error :: "string \<Rightarrow> error option"

record outcome =
  stdout :: "string list"
  written :: "(string \<times> figure) option"

subsection \<open>parse\_data\<close>

text \<open>
  \<^verbatim>\<open>df["Solved datetime"] = pd.to_datetime(df["solved_unix"], unit="s")\<close>;
  \<^verbatim>\<open>df.index = df["Solved datetime"]\<close>. The index value of a row is its solved
  timestamp, NaT where the timestamp is missing.
\<close>

definition solved_datetime :: "row \<Rightarrow> int option" where
  "solved_datetime r = solved_unix r"

text \<open>
  \<^verbatim>\<open>df = df.sort_index()\<close>: ascending, rows with a NaT index last
  (\<^verbatim>\<open>na_position="last"\<close>). The rows that have an index value are sorted by it and the
  others are appended in their original order. Rows with equal index values are kept in
  input order here; the library does not fix their order.
\<close>

definition sort_index :: "row list \<Rightarrow> row list" where
  "sort_index df =
     sort_key (\<lambda>r. the (solved_datetime r)) (filter (\<lambda>r. solved_datetime r \<noteq> None) df)
     @ filter (\<lambda>r. solved_datetime r = None) df"

text \<open>
  The three masks of the filter. A comparison with NaN is False, so a row with a missing
  timestamp fails the first mask and a row with a missing flag fails the second.
\<close>

definition within_week :: "row \<Rightarrow> bool" where
  "within_week r =
     (case (solved_unix r, opened_unix r) of
        (Some s, Some p) \<Rightarrow> s - p < 3600 * 24 * 7
      | _ \<Rightarrow> False)"

definition not_cheated :: "row \<Rightarrow> bool" where
  "not_cheated r = (cheated r = Some False)"

definition solve_time_notnull :: "row \<Rightarrow> bool" where
  "solve_time_notnull r = (solve_time_secs r \<noteq> None)"

definition keep :: "row \<Rightarrow> bool" where
  "keep r = (within_week r \<and> not_cheated r \<and> solve_time_notnull r)"

definition filter_rows :: "row list \<Rightarrow> row list" where
  "filter_rows df = filter keep df"

text \<open>Lines 28 to 45: everything \<^verbatim>\<open>parse_data\<close> does after reading the file.\<close>

definition parse_rows :: "row list \<Rightarrow> row list" where
  "parse_rows df = filter_rows (sort_index df)"

definition parse_data :: "env \<Rightarrow> string \<Rightarrow> error + row list" where
  "parse_data w csv_path =
     (case read_csv w csv_path of
        Inl e \<Rightarrow> Inl e
      | Inr df \<Rightarrow> Inr (parse_rows df))"

subsection \<open>save\_plot: weekdays, quantile, rolling mean\<close>

text \<open>\<^verbatim>\<open>df["weekday"].unique()\<close>: the distinct values in order of first appearance.\<close>

fun unique_acc :: "'a list \<Rightarrow> 'a list \<Rightarrow> 'a list" where
  "unique_acc seen [] = []"
| "unique_acc seen (x # xs) =
     (if x \<in> set seen then unique_acc seen xs else x # unique_acc (x # seen) xs)"

definition unique :: "'a list \<Rightarrow> 'a list" where
  "unique xs = unique_acc [] xs"

text \<open>The non-null solve durations of a frame, as numbers.\<close>

definition durations :: "row list \<Rightarrow> rat list" where
  "durations df = map of_int (List.map_filter solve_time_secs df)"

text \<open>
  \<^verbatim>\<open>Series.quantile(q)\<close> with the default linear interpolation: NaN cells are skipped,
  the result on no data is NaN, otherwise position \<open>(n - 1) * q\<close> of the sorted values,
  interpolated between its two neighbours.
\<close>

definition quantile :: "rat \<Rightarrow> rat list \<Rightarrow> rat option" where
  "quantile q xs =
     (if xs = [] then None
      else let arr = sort xs;
               h = of_nat (length arr - 1) * q;
               lo = nat \<lfloor>h\<rfloor>;
               hi = min (lo + 1) (length arr - 1)
           in Some (arr ! lo + (h - of_nat lo) * (arr ! hi - arr ! lo)))"

text \<open>\<^verbatim>\<open>Y_MAX = df["solve_time_secs"].quantile(0.99) / 60\<close>\<close>

definition Y_MAX :: "row list \<Rightarrow> rat option" where
  "Y_MAX df = map_option (\<lambda>q. q / 60) (quantile (99 / 100) (durations df))"

text \<open>
  \<^verbatim>\<open>.rolling("56D")\<close>: the window bounds of pandas for a time offset with the default
  \<^verbatim>\<open>closed="right"\<close>. For position \<open>i\<close> the window is the slice \<open>[start i, end i)\<close>;
  the start only moves forward from the previous start until the index value is inside
  the offset, and the end is the position after \<open>i\<close>. Index values are epoch seconds, so
  the offset is 56 days in seconds.
\<close>

definition window_56D :: int where
  "window_56D = 56 * 24 * 3600"

definition index_growth_sign :: "int list \<Rightarrow> int" where
  "index_growth_sign idx = (if idx \<noteq> [] \<and> last idx < hd idx then - 1 else 1)"

function advance_start :: "int list \<Rightarrow> int \<Rightarrow> int \<Rightarrow> nat \<Rightarrow> nat \<Rightarrow> nat" where
  "advance_start idx gsign start_bound j i =
     (if j < i
      then (if (idx ! j - start_bound) * gsign > 0 then j
            else advance_start idx gsign start_bound (Suc j) i)
      else i)"
  by pat_completeness auto
termination
  by (relation "measure (\<lambda>(idx, gsign, start_bound, j, i). i - j)") auto

declare advance_start.simps [simp del]

fun window_start :: "int list \<Rightarrow> int \<Rightarrow> nat \<Rightarrow> nat" where
  "window_start idx win 0 = 0"
| "window_start idx win (Suc i) =
     advance_start idx (index_growth_sign idx)
       (idx ! Suc i - index_growth_sign idx * win) (window_start idx win i) (Suc i)"

fun window_end :: "int list \<Rightarrow> nat \<Rightarrow> nat" where
  "window_end idx 0 = 1"
| "window_end idx (Suc i) =
     (if (idx ! window_end idx i - idx ! Suc i) * index_growth_sign idx \<le> 0
      then Suc i + 1 else window_end idx i)"

text \<open>
  \<^verbatim>\<open>.mean()\<close> of one window: NaN observations do not count, and with the minimum of
  one observation that a time offset implies, a window without observations gives NaN.
\<close>

definition arithmetic_mean :: "rat list \<Rightarrow> rat option" where
  "arithmetic_mean xs = (if xs = [] then None else Some (sum_list xs / of_nat (length xs)))"

definition mean_window :: "rat option list \<Rightarrow> rat option" where
  "mean_window win_vals = arithmetic_mean (List.map_filter (\<lambda>v. v) win_vals)"

definition roll_mean :: "int list \<Rightarrow> rat option list \<Rightarrow> int \<Rightarrow> rat option list" where
  "roll_mean idx vals win =
     map (\<lambda>i. mean_window (take (window_end idx i - window_start idx win i)
                              (drop (window_start idx win i) vals)))
       [0..<length idx]"

text \<open>
  \<^verbatim>\<open>series.rolling("56D").mean()\<close> on a series given as (index, value) pairs. pandas
  raises ValueError when the index has a NaT or is not monotonic.
\<close>

definition rolling_mean_56D :: "(int option \<times> int option) list \<Rightarrow> error + rat option list" where
  "rolling_mean_56D ser =
     (if None \<in> set (map fst ser) then Inl ValueError
      else let idx = map (\<lambda>p. the (fst p)) ser
           in if \<not> (sorted idx \<or> sorted (rev idx)) then Inl ValueError
              else Inr (roll_mean idx (map (\<lambda>p. map_option of_int (snd p)) ser) window_56D))"

text \<open>\<^verbatim>\<open>df[df["weekday"] == day]["solve_time_secs"]\<close>, with its index.\<close>

definition day_rows :: "row list \<Rightarrow> string \<Rightarrow> row list" where
  "day_rows df day = filter (\<lambda>r. weekday r = day) df"

definition day_series :: "row list \<Rightarrow> string \<Rightarrow> (int option \<times> int option) list" where
  "day_series df day = map (\<lambda>r. (solved_datetime r, solve_time_secs r)) (day_rows df day)"

text \<open>
  The loop over \<open>DAYS\<close>: each day adds one line, labelled with the day, of the rolling
  mean divided by 60 against the index. The first day whose rolling mean raises ends
  the loop with that error.
\<close>

definition day_line :: "row list \<Rightarrow> string \<Rightarrow> rat option list \<Rightarrow> line" where
  "day_line df day rolling_avg =
     \<lparr>label = day,
      points = zip (map (\<lambda>p. the (fst p)) (day_series df day))
                   (map (map_option (\<lambda>m. m / 60)) rolling_avg)\<rparr>"

fun plot_days :: "row list \<Rightarrow> string list \<Rightarrow> error + line list" where
  "plot_days df [] = Inr []"
| "plot_days df (day # days) =
     (case rolling_mean_56D (day_series df day) of
        Inl e \<Rightarrow> Inl e
      | Inr rolling_avg \<Rightarrow>
          (case plot_days df days of
             Inl e \<Rightarrow> Inl e
           | Inr ls \<Rightarrow> Inr (day_line df day rolling_avg # ls)))"

text \<open>
  \<^verbatim>\<open>np.arange(0, stop, step)\<close> for a positive step: \<open>\<lceil>stop / step\<rceil>\<close> values, none
  when the stop is not positive.
\<close>

definition arange0 :: "rat \<Rightarrow> rat \<Rightarrow> rat list" where
  "arange0 stop step = map (\<lambda>k. of_nat k * step) [0..<nat \<lceil>stop / step\<rceil>]"

text \<open>
  \<^verbatim>\<open>save_plot\<close>. The quantile of a frame without durations is NaN, and
  \<^verbatim>\<open>np.arange(0, nan + 1, 5)\<close> raises ValueError (as \<^verbatim>\<open>ax.set_ylim(0, nan)\<close> would).
  On success the result is the file written: its path and the figure.
\<close>

definition save_plot :: "env \<Rightarrow> row list \<Rightarrow> string \<Rightarrow> error + (string \<times> figure)" where
  "save_plot w df out_path =
     (let DAYS = unique (map weekday df);
          y_max = Y_MAX df
      in case plot_days df DAYS of
           Inl e \<Rightarrow> Inl e
         | Inr ls \<Rightarrow>
             (case y_max of
                None \<Rightarrow> Inl ValueError
              | Some y \<Rightarrow>
                  (case savefig_error w out_path of
                     Some e \<Rightarrow> Inl e
                   | None \<Rightarrow>
                       Inr (out_path,
                         \<lparr>title = ''NYT crossword solve time (8-week rolling average) by date of solve'',
                          lines = ls,
                          xlabel = ''Date solved'',
                          ylabel = ''Minutes'',
                          ylim = (0, y),
                          minor_yticks = arange0 (y + 1) 5\<rparr>))))"

subsection \<open>main\<close>

definition argv_get :: "string list \<Rightarrow> nat \<Rightarrow> error + string" where
  "argv_get argv i = (if i < length argv then Inr (argv ! i) else Inl IndexError)"

definition usage :: "string \<Rightarrow> string" where
  "usage prog =
     ''Required arguments not given. Usage: '' @ prog @ '' <input_csv_file> <output_file>''"

text \<open>
  The \<^verbatim>\<open>try\<close> covers only the two reads of \<^verbatim>\<open>sys.argv\<close>; its handler prints the
  usage line and returns. The two calls after it are outside any handler.
\<close>

definition main :: "env \<Rightarrow> string list \<Rightarrow> error + outcome" where
  "main w argv =
     (case (argv_get argv 1, argv_get argv 2) of
        (Inr in_file, Inr out_file) \<Rightarrow>
          (case parse_data w in_file of
             Inl e \<Rightarrow> Inl e
           | Inr df \<Rightarrow>
               (case save_plot w df out_file of
                  Inl e \<Rightarrow> Inl e
                | Inr f \<Rightarrow> Inr \<lparr>stdout = [], written = Some f\<rparr>))
      | _ \<Rightarrow>
          (case argv_get argv 0 of
             Inl e \<Rightarrow> Inl e
           | Inr prog \<Rightarrow> Inr \<lparr>stdout = [usage prog], written = None\<rparr>))"

text \<open>
  The interpreter's exit status: 1 when an exception leaves \<^verbatim>\<open>main\<close>, 0 when it
  returns.
\<close>

definition exit_status :: "error + outcome \<Rightarrow> nat" where
  "exit_status res = (case res of Inl e \<Rightarrow> 1 | Inr out \<Rightarrow> 0)"

subsection \<open>The span of the specification\<close>



text \<open>A frame as the loader returns it: every row indexed, in ascending index order.\<close>

definition well_indexed :: "row list \<Rightarrow> bool" where
  "well_indexed df =
     ((\<forall>r \<in> set df. solved_datetime r \<noteq> None)
      \<and> sorted (map (\<lambda>r. the (solved_datetime r)) df))"

text \<open>The rolling mean of one weekday of a well-indexed frame, without the checks.\<close>

definition day_avg :: "row list \<Rightarrow> string \<Rightarrow> rat option list" where
  "day_avg df day =
     roll_mean (map (\<lambda>r. the (solved_datetime r)) (day_rows df day))
       (map (\<lambda>r. map_option of_int (solve_time_secs r)) (day_rows df day)) window_56D"

subsection \<open>Example rows and environments\<close>

definition mk_row :: "string \<Rightarrow> int option \<Rightarrow> int option \<Rightarrow> int option \<Rightarrow> string \<Rightarrow> bool option \<Rightarrow> row" where
  "mk_row d s p t wd c =
     \<lparr>date = d, solved_unix = s, opened_unix = p, solve_time_secs = t, weekday = wd, cheated = c\<rparr>"

definition row_a :: row where
  "row_a = mk_row ''2021-01-04'' (Some 1609804810) (Some 1609804800) (Some 300) ''Mon'' (Some False)"

definition row_b :: row where
  "row_b = mk_row ''2021-01-11'' (Some 1610668810) (Some 1610668800) (Some 420) ''Mon'' (Some False)"

definition row_late :: row where
  "row_late = mk_row ''2021-01-05'' (Some 1610504800) (Some 1609804800) (Some 200) ''Tue'' (Some False)"

definition row_noflag :: row where
  "row_noflag = mk_row ''2021-01-06'' (Some 1609977610) (Some 1609977600) (Some 250) ''Wed'' None"

definition row_unsolved :: row where
  "row_unsolved = mk_row ''2021-01-07'' None (Some 1610064000) None ''Thu'' (Some False)"

definition row_c :: row where
  "row_c = mk_row ''2021-02-01'' (Some 1612224000) (Some 1612223000) (Some 100) ''Mon'' (Some False)"

definition row_d :: row where
  "row_d = mk_row ''2021-02-08'' (Some 1612224000) (Some 1612223500) (Some 200) ''Mon'' (Some False)"

definition rows_mixed :: "row list" where
  "rows_mixed = [row_b, row_unsolved, row_late, row_noflag, row_a]"

text \<open>
  An environment with four readable files and one output path that cannot be written.
\<close>

definition env_ex :: env where
  "env_ex =
     \<lparr>read_csv = (\<lambda>p. if p = ''mixed.csv'' then Inr rows_mixed
                       else if p = ''one.csv'' then Inr [row_a]
                       else if p = ''none.csv'' then Inr [row_late, row_noflag]
                       else if p = ''same.csv'' then Inr [row_c, row_d]
                       else Inl FileNotFoundError),
      savefig_error = (\<lambda>p. if p = ''out.xyz'' then Some ValueError else None)\<rparr>"

subsection \<open>Facts about the loader\<close>

lemma set_sort_index: "set (sort_index df) = set df"
  by (auto simp: sort_index_def)

lemma parse_rows_keep: "r \<in> set (parse_rows df) \<Longrightarrow> keep r"
  by (simp add: parse_rows_def filter_rows_def)

lemma keep_solved: "keep r \<Longrightarrow> solved_datetime r \<noteq> None"
  by (auto simp: keep_def within_week_def solved_datetime_def split: option.splits)

lemma parse_rows_eq:
  "parse_rows df =
     filter keep (sort_key (\<lambda>r. the (solved_datetime r)) (filter (\<lambda>r. solved_datetime r \<noteq> None) df))"
proof -
  have "filter keep (filter (\<lambda>r. solved_datetime r = None) df) = []"
    using keep_solved by (auto simp: filter_empty_conv)
  then show ?thesis
    by (simp add: parse_rows_def filter_rows_def sort_index_def)
qed

lemma parse_rows_sorted_the:
  "sorted (map (\<lambda>r. the (solved_datetime r)) (parse_rows df))"
  unfolding parse_rows_eq by (rule sorted_filter) simp

lemma parse_rows_well_indexed: "well_indexed (parse_rows df)"
  using parse_rows_keep keep_solved parse_rows_sorted_the
  by (auto simp: well_indexed_def)

lemma parse_data_Inr: "parse_data w p = Inr df \<Longrightarrow> \<exists>raw. read_csv w p = Inr raw \<and> df = parse_rows raw"
  by (auto simp: parse_data_def split: sum.splits)

lemma keep_simps:
  "keep row_a" "keep row_b" "\<not> keep row_late" "\<not> keep row_noflag" "\<not> keep row_unsolved"
  by (simp_all add: keep_def within_week_def not_cheated_def solve_time_notnull_def mk_row_def
      row_a_def row_b_def row_late_def row_noflag_def row_unsolved_def)

lemma solved_simps:
  "solved_datetime row_a = Some 1609804810" "solved_datetime row_b = Some 1610668810"
  "solved_datetime row_late = Some 1610504800" "solved_datetime row_noflag = Some 1609977610"
  "solved_datetime row_unsolved = None"
  by (simp_all add: solved_datetime_def mk_row_def
      row_a_def row_b_def row_late_def row_noflag_def row_unsolved_def)

lemma parse_rows_mixed: "parse_rows rows_mixed = [row_a, row_b]"
  by (simp add: parse_rows_eq rows_mixed_def keep_simps solved_simps)

lemma parse_data_mixed: "parse_data env_ex ''mixed.csv'' = Inr [row_a, row_b]"
  by (simp add: parse_data_def env_ex_def parse_rows_mixed)


lemma parse_data_none: "parse_data env_ex ''none.csv'' = Inr []"
  by (simp add: parse_data_def env_ex_def parse_rows_eq keep_simps solved_simps)

subsection \<open>Facts about the renderer\<close>







lemma well_indexed_filter: "well_indexed df \<Longrightarrow> well_indexed (filter P df)"
  by (auto simp: well_indexed_def filter_map [symmetric, unfolded comp_def] intro: sorted_filter)














lemma rolling_mean_56D_ok:
  assumes wi: "well_indexed df"
  shows "rolling_mean_56D (day_series df day)
         = Inr (roll_mean (map (\<lambda>r. the (solved_datetime r)) (day_rows df day))
                  (map (\<lambda>r. map_option of_int (solve_time_secs r)) (day_rows df day)) window_56D)"
proof -
  from wi have d: "well_indexed (day_rows df day)"
    unfolding day_rows_def by (rule well_indexed_filter)
  then have "None \<notin> set (map fst (day_series df day))"
    by (auto simp: day_series_def well_indexed_def)
  moreover from d have "sorted (map (\<lambda>p. the (fst p)) (day_series df day))"
    by (simp add: day_series_def well_indexed_def comp_def)
  ultimately show ?thesis
    by (simp add: rolling_mean_56D_def Let_def) (simp add: day_series_def comp_def)
qed


lemma rolling_day_avg: "well_indexed df \<Longrightarrow> rolling_mean_56D (day_series df day) = Inr (day_avg df day)"
  by (simp add: rolling_mean_56D_ok day_avg_def)

lemma plot_days_ok:
  "well_indexed df \<Longrightarrow> plot_days df days = Inr (map (\<lambda>day. day_line df day (day_avg df day)) days)"
  by (induction days) (simp_all add: rolling_day_avg)





lemma length_durations:
  "\<forall>r \<in> set rs. solve_time_secs r \<noteq> None \<Longrightarrow> length (durations rs) = length rs"
  by (induction rs) (auto simp: durations_def split: option.splits)

lemma parse_rows_durations: "length (durations (parse_rows raw)) = length (parse_rows raw)"
proof (rule length_durations, rule ballI)
  fix r assume "r \<in> set (parse_rows raw)"
  then have "keep r" by (rule parse_rows_keep)
  then show "solve_time_secs r \<noteq> None" by (simp add: keep_def solve_time_notnull_def)
qed

lemma quantile_Some: "xs \<noteq> [] \<Longrightarrow> \<exists>v. quantile q xs = Some v"
  by (simp add: quantile_def Let_def)



lemma save_plot_savefig_error:
  assumes "well_indexed df" and "Y_MAX df = Some y" and "savefig_error w out_path = Some e"
  shows "save_plot w df out_path = Inl e"
  using assms by (simp add: save_plot_def plot_days_ok)

lemma save_plot_no_durations:
  assumes "well_indexed df" and "Y_MAX df = None"
  shows "save_plot w df out_path = Inl ValueError"
  using assms by (simp add: save_plot_def plot_days_ok)

lemma well_indexed_Nil: "well_indexed []"
  by (simp add: well_indexed_def)

lemma Y_MAX_Nil: "Y_MAX [] = None"
  by (simp add: Y_MAX_def quantile_def durations_def)

lemma Y_MAX_parse_rows:
  assumes "parse_rows raw \<noteq> []"
  shows "\<exists>q. quantile (99 / 100) (durations (parse_rows raw)) = Some q
           \<and> Y_MAX (parse_rows raw) = Some (q / 60)"
proof -
  from assms have "durations (parse_rows raw) \<noteq> []"
    using parse_rows_durations [of raw] by auto
  then obtain q where "quantile (99 / 100) (durations (parse_rows raw)) = Some q"
    using quantile_Some by blast
  then show ?thesis by (simp add: Y_MAX_def)
qed

lemma main_args:
  "3 \<le> length argv \<Longrightarrow>
   main w argv =
     (case parse_data w (argv ! 1) of
        Inl e \<Rightarrow> Inl e
      | Inr df \<Rightarrow>
          (case save_plot w df (argv ! 2) of
             Inl e \<Rightarrow> Inl e
           | Inr f \<Rightarrow> Inr \<lparr>stdout = [], written = Some f\<rparr>))"
  by (simp add: main_def argv_get_def)

lemma main_few_args:
  "length argv = 1 \<or> length argv = 2 \<Longrightarrow>
   main w argv = Inr \<lparr>stdout = [usage (argv ! 0)], written = None\<rparr>"
  by (auto simp: main_def argv_get_def)





lemma parse_data_same: "parse_data env_ex ''same.csv'' = Inr [row_c, row_d]"
  by code_simp

lemma main_unwritable_path:
  "parse_data env_ex ''mixed.csv'' = Inr [row_a, row_b]
   \<and> savefig_error env_ex ''out.xyz'' = Some ValueError
   \<and> main env_ex [''plot.py'', ''mixed.csv'', ''out.xyz''] = Inl ValueError"
  by code_simp

subsection \<open>Claims about the loader\<close>



text \<open>
  C3. Whenever the file can be read, the rows the loader returns all have a solved-at
  datetime and are in non-decreasing order of it, although the sort runs before the
  filter.
\<close>

theorem parse_data_sorted:
  assumes "read_csv w csv_path = Inr raw"
  shows "\<exists>df ts. parse_data w csv_path = Inr df
     \<and> map solved_datetime df = map Some ts \<and> sorted ts"
proof -
  let ?df = "parse_rows raw"
  let ?ts = "map (\<lambda>r. the (solved_datetime r)) ?df"
  have "map solved_datetime ?df = map Some ?ts"
    using parse_rows_keep keep_solved by auto
  moreover have "sorted ?ts" by (rule parse_rows_sorted_the)
  moreover from assms have "parse_data w csv_path = Inr ?df" by (simp add: parse_data_def)
  ultimately show ?thesis by blast
qed

theorem parse_data_sorted_witness:
  "read_csv env_ex ''mixed.csv'' = Inr rows_mixed
   \<and> (\<exists>ts. map solved_datetime [row_a, row_b] = map Some ts \<and> sorted ts)"
proof -
  have r: "read_csv env_ex ''mixed.csv'' = Inr rows_mixed" by (simp add: env_ex_def)
  from parse_data_sorted [OF r] r show ?thesis by (simp add: parse_data_mixed)
qed

text \<open>
  C9. A row whose cheated cell is missing is never in the loader's output: the mask keeps
  only rows whose flag compares equal to False.
\<close>

theorem missing_cheated_excluded:
  assumes "cheated r = None" and "parse_data w csv_path = Inr df"
  shows "r \<notin> set df"
proof
  assume "r \<in> set df"
  with assms(2) have "keep r" by (auto dest!: parse_data_Inr simp: parse_rows_keep)
  with assms(1) show False by (simp add: keep_def not_cheated_def)
qed

theorem missing_cheated_excluded_witness:
  "cheated row_noflag = None
   \<and> read_csv env_ex ''mixed.csv'' = Inr rows_mixed \<and> row_noflag \<in> set rows_mixed
   \<and> parse_data env_ex ''mixed.csv'' = Inr [row_a, row_b]
   \<and> row_noflag \<notin> set [row_a, row_b]"
proof -
  have c: "cheated row_noflag = None" by (simp add: row_noflag_def mk_row_def)
  from missing_cheated_excluded [OF c parse_data_mixed] c
  show ?thesis by (simp add: parse_data_mixed) (simp add: env_ex_def rows_mixed_def)
qed

text \<open>
  C10. The filter is idempotent: filtering a frame that has already been filtered, and in
  particular filtering the loader's output, returns it unchanged (same rows, same order).
\<close>

theorem filter_rows_idempotent:
  "filter_rows (filter_rows df) = filter_rows df
   \<and> (parse_data w csv_path = Inr loaded \<longrightarrow> filter_rows loaded = loaded)"
  by (auto dest!: parse_data_Inr simp: parse_rows_def filter_rows_def)

theorem filter_rows_idempotent_witness:
  "filter_rows (filter_rows rows_mixed) = filter_rows rows_mixed
   \<and> parse_data env_ex ''mixed.csv'' = Inr [row_a, row_b]
   \<and> filter_rows [row_a, row_b] = [row_a, row_b]"
  using filter_rows_idempotent [of rows_mixed env_ex "''mixed.csv''" "[row_a, row_b]"]
  by (simp add: parse_data_mixed)

subsection \<open>Claims about the renderer\<close>






text \<open>
  C5. On an empty frame the renderer raises ValueError and writes nothing:
  the percentile of no durations is NaN and the tick positions cannot be computed from
  it. So when the loader returns an empty frame the program ends with that error and
  exit status 1.
\<close>

theorem save_plot_empty:
  "save_plot w [] out_path = Inl ValueError
   \<and> (parse_data w csv_path = Inr []
        \<longrightarrow> main w [prog, csv_path, out_path] = Inl ValueError
            \<and> exit_status (main w [prog, csv_path, out_path]) = 1)"
proof -
  have e: "save_plot w [] out_path = Inl ValueError"
    using well_indexed_Nil Y_MAX_Nil by (rule save_plot_no_durations)
  then show ?thesis by (simp add: main_args exit_status_def)
qed

theorem save_plot_empty_witness:
  "parse_data env_ex ''none.csv'' = Inr []
   \<and> save_plot env_ex [] ''out.png'' = Inl ValueError
   \<and> main env_ex [''plot.py'', ''none.csv'', ''out.png''] = Inl ValueError
   \<and> exit_status (main env_ex [''plot.py'', ''none.csv'', ''out.png'']) = 1"
  using save_plot_empty [of env_ex "''out.png''" "''none.csv''" "''plot.py''"]
  by (simp add: parse_data_none exit_status_def)

text \<open>
  The renderer does not succeed on the empty frame, even with an output path that can be
  written.
\<close>

theorem empty_frame_counterexample:
  "savefig_error env_ex ''out.png'' = None
   \<and> save_plot env_ex [] ''out.png'' = Inl ValueError"
  by code_simp



subsection \<open>Claims about the entry point\<close>

text \<open>
  C6. Called with no argument or with one argument after the program name, the program
  prints the usage line, writes no file, returns normally and exits with status 0.
\<close>

theorem usage_on_missing_arguments:
  assumes "length argv = 1 \<or> length argv = 2"
  shows "main w argv = Inr \<lparr>stdout = [usage (argv ! 0)], written = None\<rparr>
     \<and> exit_status (main w argv) = 0"
  using main_few_args [OF assms] by (simp add: exit_status_def)

theorem usage_on_missing_arguments_witness:
  "(length [''plot.py'', ''mixed.csv''] = 1 \<or> length [''plot.py'', ''mixed.csv''] = 2)
   \<and> main env_ex [''plot.py'', ''mixed.csv'']
       = Inr \<lparr>stdout = [''Required arguments not given. Usage: plot.py <input_csv_file> <output_file>''],
              written = None\<rparr>
   \<and> exit_status (main env_ex [''plot.py'', ''mixed.csv'']) = 0"
proof -
  have h: "length [''plot.py'', ''mixed.csv''] = 1 \<or> length [''plot.py'', ''mixed.csv''] = 2"
    by simp
  from usage_on_missing_arguments [OF h, of env_ex] show ?thesis
    by (simp add: usage_def exit_status_def)
qed

text \<open>
  C7. With both arguments given, no error is intercepted: an error of reading the file
  is the result of the program, so is any error of the renderer, in particular the error
  with which the figure cannot be saved under the output path, and the exit status of a
  run that ends with an error is 1.
\<close>

theorem errors_propagate:
  assumes "3 \<le> length argv"
  shows "(read_csv w (argv ! 1) = Inl e \<longrightarrow> main w argv = Inl e)
     \<and> (\<forall>df. parse_data w (argv ! 1) = Inr df \<and> save_plot w df (argv ! 2) = Inl e
            \<longrightarrow> main w argv = Inl e)
     \<and> (\<forall>df. parse_data w (argv ! 1) = Inr df \<and> df \<noteq> [] \<and> savefig_error w (argv ! 2) = Some e
            \<longrightarrow> main w argv = Inl e)
     \<and> (main w argv = Inl e \<longrightarrow> exit_status (main w argv) = 1)"
proof -
  have a: "main w argv = Inl e" if "read_csv w (argv ! 1) = Inl e"
    using that assms by (simp add: main_args parse_data_def)
  have b: "main w argv = Inl e"
    if "parse_data w (argv ! 1) = Inr df \<and> save_plot w df (argv ! 2) = Inl e" for df
    using that assms by (simp add: main_args)
  have c: "main w argv = Inl e"
    if h: "parse_data w (argv ! 1) = Inr df \<and> df \<noteq> [] \<and> savefig_error w (argv ! 2) = Some e" for df
  proof -
    from h obtain raw where df: "df = parse_rows raw"
      by (auto dest: parse_data_Inr)
    then have wi: "well_indexed df" by (simp add: parse_rows_well_indexed)
    from df h obtain q where "Y_MAX df = Some (q / 60)"
      using Y_MAX_parse_rows [of raw] by auto
    with wi h have "save_plot w df (argv ! 2) = Inl e"
      using save_plot_savefig_error [of df "q / 60" w "argv ! 2" e] by simp
    with h show ?thesis using b [of df] by simp
  qed
  have d: "exit_status (main w argv) = 1" if "main w argv = Inl e"
    using that by (simp add: exit_status_def)
  from a b c d show ?thesis by blast
qed

theorem errors_propagate_witness:
  "3 \<le> length [''plot.py'', ''nofile.csv'', ''out.png'']
   \<and> read_csv env_ex ''nofile.csv'' = Inl FileNotFoundError
   \<and> main env_ex [''plot.py'', ''nofile.csv'', ''out.png''] = Inl FileNotFoundError
   \<and> exit_status (main env_ex [''plot.py'', ''nofile.csv'', ''out.png'']) = 1"
proof -
  have h: "3 \<le> length [''plot.py'', ''nofile.csv'', ''out.png'']" by simp
  have r: "read_csv env_ex ''nofile.csv'' = Inl FileNotFoundError"
    by (simp add: env_ex_def)
  from errors_propagate [OF h, of env_ex FileNotFoundError] r show ?thesis
    by simp
qed

end
